theory Spec2Isabelle
  imports Main
begin

section \<open>The FTP client's download operations (FTP/FTPClient.cpp)\<close>

text \<open>
  A shallow embedding of \<^verbatim>\<open>CFTPClient::DownloadWildcard\<close>, its three wildcard
  callbacks, \<^verbatim>\<open>CFTPClient::DownloadFile\<close> and the helpers they call. Strings are
  \<open>char list\<close>; \<^verbatim>\<open>size_t\<close> values are natural numbers (the only arithmetic on
  them is \<open>size * nmemb\<close>, the length of a buffer held in memory, so no
  wrap-around is involved). Local storage, the logger and the network are explicit state.
\<close>

subsection \<open>Enumerations of the client and of the transfer library\<close>

text \<open>
  \<^verbatim>\<open>SettingsFlag\<close> is a bit mask declared in FTPClient.h; the numeric values of its
  members are not part of FTPClient.cpp, so \<^verbatim>\<open>m_eSettingsFlags\<close> is the set of the
  flags that are switched on and \<^verbatim>\<open>m_eSettingsFlags & ENABLE_LOG\<close> is membership.
\<close>

datatype SettingsFlag = ENABLE_LOG | ENABLE_SSH

datatype FTP_PROTOCOL = FTP | FTPS | FTPES | SFTP

datatype curlfiletype =
    CURLFILETYPE_FILE
  | CURLFILETYPE_DIRECTORY
  | CURLFILETYPE_SYMLINK
  | CURLFILETYPE_DEVICE_BLOCK
  | CURLFILETYPE_DEVICE_CHAR
  | CURLFILETYPE_NAMEDPIPE
  | CURLFILETYPE_SOCKET
  | CURLFILETYPE_DOOR
  | CURLFILETYPE_UNKNOWN

datatype chunk_bgn = CURL_CHUNK_BGN_FUNC_OK | CURL_CHUNK_BGN_FUNC_FAIL | CURL_CHUNK_BGN_FUNC_SKIP

datatype chunk_end = CURL_CHUNK_END_FUNC_OK | CURL_CHUNK_END_FUNC_FAIL

text \<open>\<^verbatim>\<open>CURLcode\<close> is a number; the codes the client distinguishes are named.\<close>

type_synonym CURLcode = nat

definition CURLE_OK :: CURLcode where
  "CURLE_OK = 0"

definition CURLE_WRITE_ERROR :: CURLcode where
  "CURLE_WRITE_ERROR = 23"

definition CURLE_CHUNK_FAILED :: CURLcode where
  "CURLE_CHUNK_FAILED = 55"

definition CURLE_REMOTE_FILE_NOT_FOUND :: CURLcode where
  "CURLE_REMOTE_FILE_NOT_FOUND = 78"

datatype errno = EPERM | ENOENT | EACCES | EEXIST | ENOTDIR | ENOSPC | EROFS | ENAMETOOLONG

text \<open>
  The format strings of the log messages are macros of FTPClient.h. A message handed to
  the logger is kept as the macro's name with the arguments that \<^verbatim>\<open>StringFormat\<close>
  would print into it.
\<close>

datatype log_msg =
    LOG_ERROR_CURL_NOT_INIT_MSG
  | LOG_ERROR_CURL_GETFILE_FORMAT string string CURLcode
  | LOG_ERROR_FILE_GETFILE_FORMAT
  | LOG_ERROR_CURL_GETWILD_FORMAT string string CURLcode
  | LOG_ERROR_CURL_GETWILD_REC_FORMAT string string
  | LOG_ERROR_DIR_GETWILD_FORMAT string

subsection \<open>The client, local storage and the remote side\<close>

record CFTPClient =
  m_pCurlSession :: bool
  m_eSettingsFlags :: "SettingsFlag set"
  m_strServer :: string
  m_eFtpProtocol :: FTP_PROTOCOL

datatype node = Directory | Regular string

text \<open>
  Everything outside the client that a download reads or changes:
  \<^item> \<open>path_sep\<close>: the separator of the platform the client is built for
    (\<^verbatim>\<open>'/'\<close> under \<^verbatim>\<open>#ifdef LINUX\<close>, a backslash otherwise);
  \<^item> \<open>nodes\<close>: local storage, from a path without trailing separators to what is there
    (a path and the same path followed by separators name the same entry); the two kinds
    of node are the ones on which the test
    \<^verbatim>\<open>stat(..) == 0 && (info.st_mode & S_IFDIR)\<close> and \<^verbatim>\<open>S_ISDIR\<close> agree;
  \<^item> \<open>refuse\<close>: the paths at which local storage refuses to create, overwrite or
    remove an entry, with the error it reports. Whether an entry can be created is decided
    by this alone: the directories above a path are not looked at (the callbacks create
    their entries in the directory that \<^verbatim>\<open>DownloadWildcard\<close> has checked);
  \<^item> \<open>performed\<close>: the URLs handed to \<^verbatim>\<open>curl_easy_perform\<close> so far, oldest first;
  \<^item> \<open>logged\<close>: the messages passed to \<^verbatim>\<open>m_oLog\<close> so far, oldest first;
  \<^item> \<open>cerr\<close>: what the announcement callback printed on \<^verbatim>\<open>std::cerr\<close>.
\<close>

record world =
  path_sep :: char
  nodes :: "string \<Rightarrow> node option"
  refuse :: "string \<Rightarrow> errno option"
  performed :: "string list"
  logged :: "log_msg list"
  cerr :: "(errno \<times> string) list"

record curl_fileinfo =
  filename :: string
  filetype :: curlfiletype

text \<open>
  What the remote side answers to one request: the entries a wildcard request matches, each
  with the data chunks of its content, the chunks of a plain file request, and the status
  the transfer ends with when no callback stops it. The server is asked with the number of
  requests made before and the URL, so its answers may change from one request to the next.
\<close>

record reply =
  entries :: "(curl_fileinfo \<times> string list) list"
  body :: "string list"
  outcome :: CURLcode

type_synonym server = "nat \<Rightarrow> string \<Rightarrow> reply"

subsection \<open>Local storage and output streams\<close>

definition fs_key :: "world \<Rightarrow> string \<Rightarrow> string" where
  "fs_key w p = rev (dropWhile (\<lambda>c. c = path_sep w) (rev p))"

definition stat_is_dir :: "string \<Rightarrow> world \<Rightarrow> bool" where
  "stat_is_dir p w = (nodes w (fs_key w p) = Some Directory)"

definition fs_mkdir :: "string \<Rightarrow> world \<Rightarrow> errno + world" where
  "fs_mkdir p w =
     (let k = fs_key w p in
      if nodes w k \<noteq> None then Inl EEXIST
      else case refuse w k of
             Some e \<Rightarrow> Inl e
           | None \<Rightarrow> Inr (w\<lparr>nodes := (nodes w)(k \<mapsto> Directory)\<rparr>))"

definition fs_open_trunc :: "string \<Rightarrow> world \<Rightarrow> world option" where
  "fs_open_trunc p w =
     (let k = fs_key w p in
      if nodes w k = Some Directory then None
      else case refuse w k of
             Some e \<Rightarrow> None
           | None \<Rightarrow> Some (w\<lparr>nodes := (nodes w)(k \<mapsto> Regular [])\<rparr>))"

definition fs_append :: "string \<Rightarrow> string \<Rightarrow> world \<Rightarrow> world" where
  "fs_append k bytes w =
     (case nodes w k of
        Some (Regular c) \<Rightarrow> w\<lparr>nodes := (nodes w)(k \<mapsto> Regular (c @ bytes))\<rparr>
      | _ \<Rightarrow> w)"

definition fs_remove :: "string \<Rightarrow> world \<Rightarrow> world" where
  "fs_remove p w =
     (let k = fs_key w p in
      case nodes w k of
        Some (Regular c) \<Rightarrow>
          (if refuse w k = None then w\<lparr>nodes := (nodes w)(k := None)\<rparr> else w)
      | _ \<Rightarrow> w)"

text \<open>
  A \<^verbatim>\<open>std::ofstream\<close>: the file it is associated with, if any, and its fail bit.
  \<^verbatim>\<open>open\<close> on a stream that is already open fails and leaves the association as it is;
  a successful \<^verbatim>\<open>open\<close> clears the state; \<^verbatim>\<open>write\<close> does nothing on a stream
  whose state is not good. Written bytes go to storage at once.
\<close>

record ofstream =
  target :: "string option"
  failbit :: bool

definition ofstream_init :: ofstream where
  "ofstream_init = \<lparr>target = None, failbit = False\<rparr>"

definition is_open :: "ofstream \<Rightarrow> bool" where
  "is_open s = (target s \<noteq> None)"

definition ofstream_open :: "string \<Rightarrow> ofstream \<Rightarrow> world \<Rightarrow> ofstream \<times> world" where
  "ofstream_open p s w =
     (if is_open s then (s\<lparr>failbit := True\<rparr>, w)
      else case fs_open_trunc p w of
             None \<Rightarrow> (s\<lparr>failbit := True\<rparr>, w)
           | Some w' \<Rightarrow> (\<lparr>target = Some (fs_key w p), failbit = False\<rparr>, w'))"

definition ofstream_write :: "string \<Rightarrow> ofstream \<Rightarrow> world \<Rightarrow> ofstream \<times> world" where
  "ofstream_write bytes s w =
     (case target s of
        None \<Rightarrow> (s\<lparr>failbit := True\<rparr>, w)
      | Some k \<Rightarrow> if failbit s then (s, w) else (s, fs_append k bytes w))"

definition ofstream_close :: "ofstream \<Rightarrow> ofstream" where
  "ofstream_close s =
     (case target s of
        None \<Rightarrow> s\<lparr>failbit := True\<rparr>
      | Some k \<Rightarrow> s\<lparr>target := None\<rparr>)"

subsection \<open>ParseURL and ReplaceString\<close>

definition toupper :: "char \<Rightarrow> char" where
  "toupper c =
     (case map_of (zip ''abcdefghijklmnopqrstuvwxyz'' ''ABCDEFGHIJKLMNOPQRSTUVWXYZ'') c of
        Some u \<Rightarrow> u
      | None \<Rightarrow> c)"

function ReplaceString :: "string \<Rightarrow> string \<Rightarrow> string \<Rightarrow> string" where
  "ReplaceString strSubject strSearch strReplace =
     (if strSearch = [] \<or> strSubject = [] then strSubject
      else if take (length strSearch) strSubject = strSearch
        then strReplace @ ReplaceString (drop (length strSearch) strSubject) strSearch strReplace
        else hd strSubject # ReplaceString (tl strSubject) strSearch strReplace)"
  by pat_completeness auto
termination
  by (relation "measure (\<lambda>(s, f, r). length s)") auto

definition ParseURL :: "CFTPClient \<Rightarrow> string \<Rightarrow> string" where
  "ParseURL c strRemoteFile =
     (let strURL = ReplaceString (m_strServer c @ ''/'' @ strRemoteFile) ''/'' ''//'';
          strUri = map toupper strURL
      in if take 3 strUri \<noteq> ''FTP'' \<and> take 4 strUri \<noteq> ''SFTP''
         then (case m_eFtpProtocol c of
                 FTP \<Rightarrow> ''ftp://'' @ strURL
               | FTPS \<Rightarrow> ''ftps://'' @ strURL
               | FTPES \<Rightarrow> ''ftpes://'' @ strURL
               | SFTP \<Rightarrow> ''sftp://'' @ strURL)
         else strURL)"

declare ReplaceString.simps [simp del]

subsection \<open>The wildcard callbacks\<close>

text \<open>
  \<^verbatim>\<open>WildcardTransfersCallbackData\<close> (declared in FTPClient.h; its three members are the
  ones the callbacks use). The argument \<open>remains\<close> of the announcement callback is not
  used by it.
\<close>

record WildcardTransfersCallbackData =
  ofsOutput :: ofstream
  strOutputPath :: string
  vecDirList :: "string list"

definition FileIsComingCallback ::
  "curl_fileinfo \<Rightarrow> WildcardTransfersCallbackData \<Rightarrow> nat \<Rightarrow> world
    \<Rightarrow> chunk_bgn \<times> WildcardTransfersCallbackData \<times> world" where
  "FileIsComingCallback finfo data remains w =
     (case filetype finfo of
        CURLFILETYPE_DIRECTORY \<Rightarrow>
          (let data1 = data\<lparr>vecDirList := vecDirList data @ [filename finfo]\<rparr> in
           case fs_mkdir (strOutputPath data1 @ filename finfo) w of
             Inl e \<Rightarrow>
               if e \<noteq> EEXIST
               then (CURL_CHUNK_BGN_FUNC_FAIL, data1,
                     w\<lparr>cerr := cerr w @ [(e, strOutputPath data1 @ filename finfo)]\<rparr>)
               else (CURL_CHUNK_BGN_FUNC_OK, data1, w)
           | Inr w' \<Rightarrow> (CURL_CHUNK_BGN_FUNC_OK, data1, w'))
      | CURLFILETYPE_FILE \<Rightarrow>
          (case ofstream_open (strOutputPath data @ filename finfo) (ofsOutput data) w of
             (s, w') \<Rightarrow>
               if \<not> is_open s
               then (CURL_CHUNK_BGN_FUNC_FAIL, data\<lparr>ofsOutput := s\<rparr>, w')
               else (CURL_CHUNK_BGN_FUNC_OK, data\<lparr>ofsOutput := s\<rparr>, w'))
      | _ \<Rightarrow> (CURL_CHUNK_BGN_FUNC_OK, data, w))"

definition FileIsDownloadedCallback ::
  "WildcardTransfersCallbackData \<Rightarrow> chunk_end \<times> WildcardTransfersCallbackData" where
  "FileIsDownloadedCallback data =
     (if is_open (ofsOutput data)
      then (CURL_CHUNK_END_FUNC_OK, data\<lparr>ofsOutput := ofstream_close (ofsOutput data)\<rparr>)
      else (CURL_CHUNK_END_FUNC_OK, data))"

text \<open>
  \<open>buff\<close> holds at least \<open>sz * nmemb\<close> bytes; the callback writes that many of them.
  The \<^verbatim>\<open>else\<close> branch of the source is commented out, so \<^verbatim>\<open>written\<close> stays 0 when no
  file is open.
\<close>

definition WriteItCallback ::
  "string \<Rightarrow> nat \<Rightarrow> nat \<Rightarrow> WildcardTransfersCallbackData \<Rightarrow> world
    \<Rightarrow> nat \<times> WildcardTransfersCallbackData \<times> world" where
  "WriteItCallback buff sz nmemb data w =
     (if is_open (ofsOutput data)
      then (case ofstream_write (take (sz * nmemb) buff) (ofsOutput data) w of
              (s, w') \<Rightarrow> (nmemb, data\<lparr>ofsOutput := s\<rparr>, w'))
      else (0, data, w))"

text \<open>The callback of \<^verbatim>\<open>DownloadFile\<close>; \<open>data\<close> is a pointer and may be null.\<close>

definition WriteToFileCallback ::
  "string \<Rightarrow> nat \<Rightarrow> nat \<Rightarrow> ofstream option \<Rightarrow> world \<Rightarrow> nat \<times> ofstream option \<times> world" where
  "WriteToFileCallback buff sz nmemb data w =
     (if sz = 0 \<or> nmemb = 0 \<or> sz * nmemb < 1 \<or> data = None then (0, data, w)
      else case data of
             None \<Rightarrow> (0, data, w)
           | Some pFileStream \<Rightarrow>
               if is_open pFileStream
               then (case ofstream_write (take (sz * nmemb) buff) pFileStream w of
                       (s, w') \<Rightarrow> (sz * nmemb, Some s, w'))
               else (sz * nmemb, data, w))"

subsection \<open>The transfer session\<close>

text \<open>
  Modelled from the spec: the transfer session (\<^verbatim>\<open>curl_easy_perform\<close> of the transfer
  library, which is not part of the repository). Section 6 of the specification gives the
  contract the client consumes: \<open>perform\<close> returns a status code and fires three hooks
  synchronously, item-announced with result continue, skip or abort, data-received with
  the number of bytes accepted, and item-complete. Section 3 adds that the completion hook
  fires once per item before the next announcement or before \<open>perform\<close> returns, and
  section 7 that an abort of the announcement hook surfaces as a failed status. The
  library's rule for data-received is that a chunk is passed with \<open>size = 1\<close> and that a
  return value other than \<open>size * nmemb\<close> stops the transfer with a write error. Data is
  transferred for entries of type file only.
\<close>

fun deliver ::
  "(string \<Rightarrow> nat \<Rightarrow> nat \<Rightarrow> 's \<Rightarrow> nat \<times> 's) \<Rightarrow> string list \<Rightarrow> 's \<Rightarrow> bool \<times> 's" where
  "deliver cb [] s = (True, s)"
| "deliver cb (buff # bufs) s =
     (case cb buff 1 (length buff) s of
        (taken, s') \<Rightarrow> if taken \<noteq> 1 * length buff then (False, s') else deliver cb bufs s')"

definition wildcard_write ::
  "string \<Rightarrow> nat \<Rightarrow> nat \<Rightarrow> WildcardTransfersCallbackData \<times> world
    \<Rightarrow> nat \<times> WildcardTransfersCallbackData \<times> world" where
  "wildcard_write buff sz nmemb s = WriteItCallback buff sz nmemb (fst s) (snd s)"

fun wc_statemach ::
  "(curl_fileinfo \<times> string list) list \<Rightarrow> CURLcode \<Rightarrow> WildcardTransfersCallbackData \<Rightarrow> world
    \<Rightarrow> CURLcode \<times> WildcardTransfersCallbackData \<times> world" where
  "wc_statemach [] res data w = (res, data, w)"
| "wc_statemach ((finfo, content) # rest) res data w =
     (case FileIsComingCallback finfo data (length rest) w of
        (CURL_CHUNK_BGN_FUNC_FAIL, data1, w1) \<Rightarrow> (CURLE_CHUNK_FAILED, data1, w1)
      | (CURL_CHUNK_BGN_FUNC_SKIP, data1, w1) \<Rightarrow>
          wc_statemach rest res (snd (FileIsDownloadedCallback data1)) w1
      | (CURL_CHUNK_BGN_FUNC_OK, data1, w1) \<Rightarrow>
          if filetype finfo = CURLFILETYPE_FILE
          then (case deliver wildcard_write content (data1, w1) of
                  (accepted, data2, w2) \<Rightarrow>
                    if accepted
                    then wc_statemach rest res (snd (FileIsDownloadedCallback data2)) w2
                    else (CURLE_WRITE_ERROR, snd (FileIsDownloadedCallback data2), w2))
          else wc_statemach rest res (snd (FileIsDownloadedCallback data1)) w1)"

definition Perform_wildcard ::
  "server \<Rightarrow> string \<Rightarrow> WildcardTransfersCallbackData \<Rightarrow> world
    \<Rightarrow> CURLcode \<times> WildcardTransfersCallbackData \<times> world" where
  "Perform_wildcard srv url data w =
     (let r = srv (length (performed w)) url
      in wc_statemach (entries r) (outcome r) data (w\<lparr>performed := performed w @ [url]\<rparr>))"

definition file_write ::
  "string \<Rightarrow> nat \<Rightarrow> nat \<Rightarrow> ofstream \<times> world \<Rightarrow> nat \<times> ofstream \<times> world" where
  "file_write buff sz nmemb s =
     (case WriteToFileCallback buff sz nmemb (Some (fst s)) (snd s) of
        (taken, data, w') \<Rightarrow> (taken, (case data of Some s' \<Rightarrow> s' | None \<Rightarrow> fst s), w'))"

definition Perform_download ::
  "server \<Rightarrow> string \<Rightarrow> ofstream \<Rightarrow> world \<Rightarrow> CURLcode \<times> ofstream \<times> world" where
  "Perform_download srv url ofs w =
     (let r = srv (length (performed w)) url
      in case deliver file_write (body r) (ofs, w\<lparr>performed := performed w @ [url]\<rparr>) of
           (accepted, ofs', w') \<Rightarrow>
             (if accepted then outcome r else CURLE_WRITE_ERROR, ofs', w'))"

subsection \<open>DownloadFile\<close>

definition m_oLog :: "log_msg \<Rightarrow> world \<Rightarrow> world" where
  "m_oLog msg w = w\<lparr>logged := logged w @ [msg]\<rparr>"

text \<open>
  The body of \<^verbatim>\<open>DownloadFile\<close>, returning \<^verbatim>\<open>bRet\<close> together with the local stream
  \<^verbatim>\<open>ofsOutput\<close> as it is at the return statement (a stream that was never opened where
  the function returns before declaring it). \<^verbatim>\<open>curl_easy_reset\<close> only clears the options
  of the session, which the embedding passes to the transfer session as arguments.
\<close>

definition DownloadFile_locals ::
  "CFTPClient \<Rightarrow> server \<Rightarrow> string \<Rightarrow> string \<Rightarrow> world \<Rightarrow> bool \<times> ofstream \<times> world" where
  "DownloadFile_locals c srv strLocalFile strRemoteFile w =
     (if strLocalFile = [] \<or> strRemoteFile = [] then (False, ofstream_init, w)
      else if \<not> m_pCurlSession c
      then (False, ofstream_init,
            if ENABLE_LOG \<in> m_eSettingsFlags c then m_oLog LOG_ERROR_CURL_NOT_INIT_MSG w else w)
      else
        let strFile = ParseURL c strRemoteFile in
        case ofstream_open strLocalFile ofstream_init w of
          (ofsOutput0, w0) \<Rightarrow>
            if \<not> failbit ofsOutput0
            then (case Perform_download srv strFile ofsOutput0 w0 of
                    (res, ofsOutput1, w1) \<Rightarrow>
                      let bRet = (res = CURLE_OK);
                          w2 = (if res \<noteq> CURLE_OK
                                then (if ENABLE_LOG \<in> m_eSettingsFlags c
                                      then m_oLog (LOG_ERROR_CURL_GETFILE_FORMAT
                                                     (m_strServer c) strRemoteFile res) w1
                                      else w1)
                                else w1);
                          ofsOutput2 = ofstream_close ofsOutput1;
                          w3 = (if \<not> bRet then fs_remove strLocalFile w2 else w2)
                      in (bRet, ofsOutput2, w3))
            else (False, ofsOutput0,
                  if ENABLE_LOG \<in> m_eSettingsFlags c
                  then m_oLog LOG_ERROR_FILE_GETFILE_FORMAT w0 else w0))"

definition DownloadFile ::
  "CFTPClient \<Rightarrow> server \<Rightarrow> string \<Rightarrow> string \<Rightarrow> world \<Rightarrow> bool \<times> world" where
  "DownloadFile c srv strLocalFile strRemoteFile w =
     (case DownloadFile_locals c srv strLocalFile strRemoteFile w of
        (bRet, ofs, w') \<Rightarrow> (bRet, w'))"

subsection \<open>DownloadWildcard\<close>

text \<open>
  \<^verbatim>\<open>data.strOutputPath\<close>: the local directory, ending with the separator. The caller has
  checked that \<open>strLocalDir\<close> is not empty.
\<close>

definition strOutputPath_of :: "world \<Rightarrow> string \<Rightarrow> string" where
  "strOutputPath_of w strLocalDir =
     strLocalDir @ (if last strLocalDir \<noteq> path_sep w then [path_sep w] else [])"

text \<open>\<^verbatim>\<open>strBaseUrl\<close>, for a pattern that is not empty.\<close>

definition strBaseUrl_of :: "string \<Rightarrow> string" where
  "strBaseUrl_of strRemoteWildcard =
     (let strBaseUrl = take (length strRemoteWildcard - 1) strRemoteWildcard
      in if strBaseUrl \<noteq> [] \<and> last strBaseUrl \<noteq> CHR ''/''
         then strBaseUrl @ ''/'' else strBaseUrl)"

text \<open>
  The loop over \<^verbatim>\<open>data.vecDirList\<close>; \<open>call\<close> is the recursive invocation of
  \<^verbatim>\<open>DownloadWildcard\<close>, whose result is \<open>None\<close> when it does not return.
\<close>

fun for_each_dir ::
  "(string \<Rightarrow> string \<Rightarrow> world \<Rightarrow> (bool \<times> world) option) \<Rightarrow> string \<Rightarrow> string \<Rightarrow> string list
    \<Rightarrow> bool \<Rightarrow> world \<Rightarrow> (bool \<times> world) option" where
  "for_each_dir call out base [] bRet w = Some (bRet, w)"
| "for_each_dir call out base (Dir # rest) bRet w =
     (case call (out @ Dir) (base @ Dir @ ''/*'') w of
        None \<Rightarrow> None
      | Some (ok, w1) \<Rightarrow>
          if \<not> ok
          then for_each_dir call out base rest False
                 (m_oLog (LOG_ERROR_CURL_GETWILD_REC_FORMAT (base @ Dir @ ''/*'') (out @ Dir)) w1)
          else for_each_dir call out base rest bRet w1)"

text \<open>
  \<^verbatim>\<open>DownloadWildcard\<close> calls itself once for every directory the remote side announces,
  and nothing bounds the depth of what the remote side announces, so the function need not
  return. The first argument bounds the depth of the calls: the result is \<open>None\<close> when
  the bound is reached, and otherwise the returned \<^verbatim>\<open>bRet\<close> with the world as the call
  leaves it.
\<close>

primrec DownloadWildcard ::
  "nat \<Rightarrow> CFTPClient \<Rightarrow> server \<Rightarrow> string \<Rightarrow> string \<Rightarrow> world \<Rightarrow> (bool \<times> world) option" where
  "DownloadWildcard 0 c srv strLocalDir strRemoteWildcard w = None"
| "DownloadWildcard (Suc depth) c srv strLocalDir strRemoteWildcard w =
     (if strLocalDir = [] \<or> strRemoteWildcard = [] then Some (False, w)
      else if \<not> m_pCurlSession c
      then Some (False,
                 if ENABLE_LOG \<in> m_eSettingsFlags c
                 then m_oLog LOG_ERROR_CURL_NOT_INIT_MSG w else w)
      else
        let data = \<lparr>ofsOutput = ofstream_init,
                    strOutputPath = strOutputPath_of w strLocalDir,
                    vecDirList = []\<rparr>;
            strPattern = ParseURL c strRemoteWildcard
        in if stat_is_dir (strOutputPath data) w
           then (case Perform_wildcard srv strPattern data w of
                   (res, data1, w1) \<Rightarrow>
                     if res \<noteq> CURLE_OK \<and> res \<noteq> CURLE_REMOTE_FILE_NOT_FOUND
                     then Some (False,
                                if ENABLE_LOG \<in> m_eSettingsFlags c
                                then m_oLog (LOG_ERROR_CURL_GETWILD_FORMAT
                                               (m_strServer c) strRemoteWildcard res) w1
                                else w1)
                     else if vecDirList data1 \<noteq> [] \<and> last strRemoteWildcard = CHR ''*''
                     then for_each_dir (DownloadWildcard depth c srv) (strOutputPath data1)
                            (strBaseUrl_of strRemoteWildcard) (vecDirList data1) True w1
                     else Some (True, w1))
           else Some (False,
                      if ENABLE_LOG \<in> m_eSettingsFlags c
                      then m_oLog (LOG_ERROR_DIR_GETWILD_FORMAT (strOutputPath data)) w
                      else w))"

text \<open>
  The transfer of one invocation: the \<^verbatim>\<open>Perform()\<close> call of \<^verbatim>\<open>DownloadWildcard\<close>
  with the callback data and the URL the invocation has prepared for it.
\<close>

definition enumeration ::
  "CFTPClient \<Rightarrow> server \<Rightarrow> string \<Rightarrow> string \<Rightarrow> world
    \<Rightarrow> CURLcode \<times> WildcardTransfersCallbackData \<times> world" where
  "enumeration c srv strLocalDir strRemoteWildcard w =
     Perform_wildcard srv (ParseURL c strRemoteWildcard)
       \<lparr>ofsOutput = ofstream_init,
        strOutputPath = strOutputPath_of w strLocalDir,
        vecDirList = []\<rparr> w"

subsection \<open>The specification's wording of the recursion\<close>

text \<open>
  The child pattern as the specification words it: strip the trailing wildcard, ensure a
  trailing separator, append the directory name and \<open>/*\<close>.
\<close>

definition ensure_trailing_slash :: "string \<Rightarrow> string" where
  "ensure_trailing_slash s = (if s \<noteq> [] \<and> last s = CHR ''/'' then s else s @ ''/'')"

definition spec_child_pattern :: "string \<Rightarrow> string \<Rightarrow> string" where
  "spec_child_pattern remotePattern d = ensure_trailing_slash (butlast remotePattern) @ d @ ''/*''"


subsection \<open>A concrete client, local storage and server\<close>

definition example_client :: CFTPClient where
  "example_client =
     \<lparr>m_pCurlSession = True, m_eSettingsFlags = {}, m_strServer = ''h'', m_eFtpProtocol = FTP\<rparr>"

definition example_world :: world where
  "example_world =
     \<lparr>path_sep = CHR ''/'',
      nodes = [''out'' \<mapsto> Directory, ''out/old'' \<mapsto> Directory],
      refuse = [''out/locked'' \<mapsto> EACCES, ''out/locked.txt'' \<mapsto> EACCES],
      performed = [], logged = [], cerr = []\<rparr>"

definition dir_entry :: "string \<Rightarrow> curl_fileinfo \<times> string list" where
  "dir_entry name = (\<lparr>filename = name, filetype = CURLFILETYPE_DIRECTORY\<rparr>, [])"

definition file_entry :: "string \<Rightarrow> string list \<Rightarrow> curl_fileinfo \<times> string list" where
  "file_entry name content = (\<lparr>filename = name, filetype = CURLFILETYPE_FILE\<rparr>, content)"

definition example_server :: server where
  "example_server n url =
     (if url = ''ftp://h//reports//*''
        then \<lparr>entries = [dir_entry ''2024'', file_entry ''top.txt'' [''ab'', ''cd'']],
              body = [], outcome = CURLE_OK\<rparr>
      else if url = ''ftp://h//reports//2024//*''
        then \<lparr>entries = [file_entry ''a.txt'' [''hi'']], body = [], outcome = CURLE_OK\<rparr>
      else if url = ''ftp://h//empty//*''
        then \<lparr>entries = [], body = [], outcome = CURLE_REMOTE_FILE_NOT_FOUND\<rparr>
      else if url = ''ftp://h//*''
        then \<lparr>entries = [dir_entry ''d''], body = [], outcome = CURLE_OK\<rparr>
      else if url = ''ftp://h//d//*''
        then \<lparr>entries = [], body = [], outcome = CURLE_REMOTE_FILE_NOT_FOUND\<rparr>
      else if url = ''ftp://h//mixed//*''
        then \<lparr>entries = [dir_entry ''a'', dir_entry ''b'', dir_entry ''c''],
              body = [], outcome = CURLE_OK\<rparr>
      else if url = ''ftp://h//mixed//a//*''
        then \<lparr>entries = [], body = [], outcome = CURLE_REMOTE_FILE_NOT_FOUND\<rparr>
      else if url = ''ftp://h//mixed//c//*''
        then \<lparr>entries = [file_entry ''c.txt'' [''c'']], body = [], outcome = CURLE_OK\<rparr>
      else if url = ''ftp://h//f.bin''
        then \<lparr>entries = [], body = [''xy'', ''z''], outcome = 18\<rparr>
      else \<lparr>entries = [], body = [], outcome = 7\<rparr>)"

definition example_data :: WildcardTransfersCallbackData where
  "example_data = \<lparr>ofsOutput = ofstream_init, strOutputPath = ''out/'', vecDirList = []\<rparr>"



subsection \<open>An auxiliary predicate\<close>





definition announced :: "world \<Rightarrow> string \<Rightarrow> string list \<Rightarrow> bool" where
  "announced w out ds =
     (\<forall>d \<in> set ds. nodes w (fs_key w (out @ d)) \<noteq> None \<or> refuse w (fs_key w (out @ d)) \<noteq> None)"



text \<open>The messages are all of the kind logged for a failed recursive call.\<close>

definition only_recursion_messages :: "log_msg list \<Rightarrow> bool" where
  "only_recursion_messages ms =
     list_all (\<lambda>m. case m of LOG_ERROR_CURL_GETWILD_REC_FORMAT p l \<Rightarrow> True | _ \<Rightarrow> False) ms"

section \<open>Properties\<close>

subsection \<open>Paths, logging and the shape of one invocation\<close>

lemma fs_key_snoc_sep: "fs_key w (p @ [path_sep w]) = fs_key w p"
  by (simp add: fs_key_def)

lemma fs_key_strOutputPath: "fs_key w (strOutputPath_of w p) = fs_key w p"
  by (simp add: strOutputPath_of_def fs_key_snoc_sep)

lemma stat_is_dir_strOutputPath: "stat_is_dir (strOutputPath_of w p) w = stat_is_dir p w"
  by (simp add: stat_is_dir_def fs_key_strOutputPath)

lemma m_oLog_fields [simp]:
  "performed (m_oLog m w) = performed w" "nodes (m_oLog m w) = nodes w"
  "refuse (m_oLog m w) = refuse w" "path_sep (m_oLog m w) = path_sep w"
  "logged (m_oLog m w) = logged w @ [m]" "cerr (m_oLog m w) = cerr w"
  by (simp_all add: m_oLog_def)

lemma DownloadWildcard_enumerated:
  assumes "strLocalDir \<noteq> []" and "strRemoteWildcard \<noteq> []" and "m_pCurlSession c"
    and "stat_is_dir strLocalDir w"
  shows "DownloadWildcard (Suc depth) c srv strLocalDir strRemoteWildcard w =
     (case enumeration c srv strLocalDir strRemoteWildcard w of
        (res, data1, w1) \<Rightarrow>
          if res \<noteq> CURLE_OK \<and> res \<noteq> CURLE_REMOTE_FILE_NOT_FOUND
          then Some (False,
                     if ENABLE_LOG \<in> m_eSettingsFlags c
                     then m_oLog (LOG_ERROR_CURL_GETWILD_FORMAT
                                    (m_strServer c) strRemoteWildcard res) w1
                     else w1)
          else if vecDirList data1 \<noteq> [] \<and> last strRemoteWildcard = CHR ''*''
          then for_each_dir (DownloadWildcard depth c srv) (strOutputPath data1)
                 (strBaseUrl_of strRemoteWildcard) (vecDirList data1) True w1
          else Some (True, w1))"
  using assms by (simp add: stat_is_dir_strOutputPath enumeration_def Let_def)

lemma DownloadWildcard_cases:
  assumes "strLocalDir \<noteq> []" and "strRemoteWildcard \<noteq> []" and "m_pCurlSession c"
    and "stat_is_dir strLocalDir w"
    and "enumeration c srv strLocalDir strRemoteWildcard w = (res, data1, w1)"
  shows "DownloadWildcard (Suc depth) c srv strLocalDir strRemoteWildcard w =
       (if res \<noteq> CURLE_OK \<and> res \<noteq> CURLE_REMOTE_FILE_NOT_FOUND
        then Some (False,
                   if ENABLE_LOG \<in> m_eSettingsFlags c
                   then m_oLog (LOG_ERROR_CURL_GETWILD_FORMAT
                                  (m_strServer c) strRemoteWildcard res) w1
                   else w1)
        else if vecDirList data1 \<noteq> [] \<and> last strRemoteWildcard = CHR ''*''
        then for_each_dir (DownloadWildcard depth c srv) (strOutputPath data1)
               (strBaseUrl_of strRemoteWildcard) (vecDirList data1) True w1
        else Some (True, w1))"
  unfolding DownloadWildcard_enumerated [OF assms(1-4)] assms(5) by simp

lemma wildcard_write_pair:
  "wildcard_write buff sz nmemb (d, w) = WriteItCallback buff sz nmemb d w"
  by (simp add: wildcard_write_def)

lemma FileIsComingCallback_strOutputPath:
  "strOutputPath (fst (snd (FileIsComingCallback finfo data remains w))) = strOutputPath data"
  by (simp add: FileIsComingCallback_def Let_def
      split: curlfiletype.split sum.split prod.split)

lemma FileIsDownloadedCallback_strOutputPath:
  "strOutputPath (snd (FileIsDownloadedCallback data)) = strOutputPath data"
  by (simp add: FileIsDownloadedCallback_def)

lemma WriteItCallback_strOutputPath:
  "strOutputPath (fst (snd (WriteItCallback buff sz nmemb data w))) = strOutputPath data"
  by (simp add: WriteItCallback_def split: prod.split)

lemma deliver_wildcard_strOutputPath:
  "strOutputPath (fst (snd (deliver wildcard_write bufs (data, w)))) = strOutputPath data"
proof (induction bufs arbitrary: data w)
  case Nil
  show ?case by simp
next
  case (Cons buff bufs)
  obtain taken d' w' where step: "WriteItCallback buff 1 (length buff) data w = (taken, d', w')"
    by (cases "WriteItCallback buff 1 (length buff) data w") auto
  have "strOutputPath d' = strOutputPath data"
    using WriteItCallback_strOutputPath [of buff 1 "length buff" data w] step by simp
  then show ?case
    using Cons.IH [of d' w'] step by (simp add: wildcard_write_def)
qed

lemma wc_statemach_strOutputPath:
  "strOutputPath (fst (snd (wc_statemach items res data w))) = strOutputPath data"
proof (induction items arbitrary: data w)
  case Nil
  show ?case by simp
next
  case (Cons item items)
  obtain finfo content where item: "item = (finfo, content)" by (cases item)
  obtain r d1 w1 where bgn: "FileIsComingCallback finfo data (length items) w = (r, d1, w1)"
    by (cases "FileIsComingCallback finfo data (length items) w") auto
  have d1: "strOutputPath d1 = strOutputPath data"
    using FileIsComingCallback_strOutputPath [of finfo data "length items" w] bgn by simp
  obtain acc d2 w2 where del: "deliver wildcard_write content (d1, w1) = (acc, d2, w2)"
    by (cases "deliver wildcard_write content (d1, w1)") auto
  have d2: "strOutputPath d2 = strOutputPath data"
    using deliver_wildcard_strOutputPath [of content d1 w1] del d1 by simp
  show ?case
    using item bgn del d1 d2 Cons.IH
    by (cases r) (simp_all add: FileIsDownloadedCallback_strOutputPath)
qed

lemma enumeration_strOutputPath:
  "strOutputPath (fst (snd (enumeration c srv strLocalDir strRemoteWildcard w))) =
     strOutputPath_of w strLocalDir"
  by (simp add: enumeration_def Perform_wildcard_def Let_def wc_statemach_strOutputPath)



lemma example_urls:
  "ParseURL example_client ''reports/*'' = ''ftp://h//reports//*''"
  "ParseURL example_client ''reports/2024/*'' = ''ftp://h//reports//2024//*''"
  "ParseURL example_client ''empty/*'' = ''ftp://h//empty//*''"
  "ParseURL example_client ''*'' = ''ftp://h//*''"
  "ParseURL example_client ''d/*'' = ''ftp://h//d//*''"
  "ParseURL example_client ''/d/*'' = ''ftp://h////d//*''"
  "ParseURL example_client ''mixed/*'' = ''ftp://h//mixed//*''"
  "ParseURL example_client ''mixed/a/*'' = ''ftp://h//mixed//a//*''"
  "ParseURL example_client ''mixed/b/*'' = ''ftp://h//mixed//b//*''"
  "ParseURL example_client ''mixed/c/*'' = ''ftp://h//mixed//c//*''"
  "ParseURL example_client ''f.bin'' = ''ftp://h//f.bin''"
  by code_simp+

lemma example_stat: "stat_is_dir ''out'' example_world"
  by (simp add: example_world_def stat_is_dir_def fs_key_def)

lemma example_session: "m_pCurlSession example_client"
  by (simp add: example_client_def)

subsection \<open>Preconditions and the empty directory\<close>

text \<open>
  Claim C4. When the arguments are not empty and the local directory does not exist on local
  storage as a directory, \<^verbatim>\<open>DownloadWildcard\<close> returns \<open>false\<close> and makes no
  network call: the list of performed requests is what it was (and local storage is
  untouched). The call returns at every depth bound above zero.
\<close>

theorem missing_local_directory:
  assumes "strLocalDir \<noteq> []" and "strRemoteWildcard \<noteq> []"
    and "\<not> stat_is_dir strLocalDir w"
  shows "\<exists>w'. DownloadWildcard (Suc depth) c srv strLocalDir strRemoteWildcard w = Some (False, w')
           \<and> performed w' = performed w \<and> nodes w' = nodes w"
  using assms by (simp add: stat_is_dir_strOutputPath)

theorem missing_local_directory_witness:
  "\<exists>w'. DownloadWildcard (Suc 0) example_client example_server ''missing'' ''reports/*''
            example_world = Some (False, w')
        \<and> performed w' = performed example_world \<and> nodes w' = nodes example_world"
proof -
  have "\<not> stat_is_dir ''missing'' example_world"
    by (simp add: example_world_def stat_is_dir_def fs_key_def)
  then show ?thesis
    using missing_local_directory
      [of "''missing''" "''reports/*''" example_world 0 example_client example_server]
    by simp
qed

text \<open>
  Claim C3. When the transfer of an invocation ends with the status "remote file not found"
  and no subdirectory was collected, \<^verbatim>\<open>DownloadWildcard\<close> returns \<open>true\<close>, leaving
  the world as the transfer left it.
\<close>

theorem empty_directory_is_success:
  assumes "strLocalDir \<noteq> []" and "strRemoteWildcard \<noteq> []" and "m_pCurlSession c"
    and "stat_is_dir strLocalDir w"
    and "fst (enumeration c srv strLocalDir strRemoteWildcard w) = CURLE_REMOTE_FILE_NOT_FOUND"
    and "vecDirList (fst (snd (enumeration c srv strLocalDir strRemoteWildcard w))) = []"
  shows "DownloadWildcard (Suc depth) c srv strLocalDir strRemoteWildcard w =
           Some (True, snd (snd (enumeration c srv strLocalDir strRemoteWildcard w)))"
proof -
  obtain res data1 w1 where e: "enumeration c srv strLocalDir strRemoteWildcard w = (res, data1, w1)"
    by (cases "enumeration c srv strLocalDir strRemoteWildcard w") auto
  have "DownloadWildcard (Suc depth) c srv strLocalDir strRemoteWildcard w = Some (True, w1)"
    using assms(5,6) e
    by (simp only: DownloadWildcard_enumerated [OF assms(1-4)]) simp
  then show ?thesis using e by simp
qed

theorem empty_directory_is_success_witness:
  "DownloadWildcard (Suc 0) example_client example_server ''out'' ''empty/*'' example_world =
     Some (True, example_world\<lparr>performed := [''ftp://h//empty//*'']\<rparr>)"
proof -
  have e: "enumeration example_client example_server ''out'' ''empty/*'' example_world =
      (CURLE_REMOTE_FILE_NOT_FOUND,
       \<lparr>ofsOutput = ofstream_init, strOutputPath = ''out/'', vecDirList = []\<rparr>,
       example_world\<lparr>performed := [''ftp://h//empty//*'']\<rparr>)"
    by (simp add: enumeration_def Perform_wildcard_def example_urls example_server_def
        example_world_def strOutputPath_of_def)
  have d: "stat_is_dir ''out'' example_world"
    by (simp add: example_world_def stat_is_dir_def fs_key_def)
  have s: "m_pCurlSession example_client"
    by (simp add: example_client_def)
  show ?thesis
    using empty_directory_is_success
      [of "''out''" "''empty/*''" example_client example_world example_server 0] e d s
    by simp
qed

subsection \<open>The fan-out over the subdirectories\<close>



lemma strBaseUrl_of_wildcard:
  "strBaseUrl_of (p @ ''*'') = (if p = [] then [] else ensure_trailing_slash p)"
  by (simp add: strBaseUrl_of_def ensure_trailing_slash_def)

lemma spec_child_pattern_wildcard:
  "spec_child_pattern (p @ ''*'') d = ensure_trailing_slash p @ d @ ''/*''"
  by (simp add: spec_child_pattern_def)

text \<open>
  Claim C1 (amended). With a pattern \<open>p*\<close>, a transfer that succeeded (or ended with "remote
  file not found") and a non-empty list of subdirectories, \<^verbatim>\<open>DownloadWildcard\<close> runs its
  loop over the subdirectories, and the loop's step for a subdirectory \<open>d\<close> calls
  \<^verbatim>\<open>DownloadWildcard\<close> with the local path \<open>d\<close> appended to the separator-terminated
  local directory, and with the remote pattern that the specification describes (strip the
  wildcard, ensure a trailing \<open>/\<close>, append \<open>d/*\<close>) when \<open>p\<close> is not empty. When \<open>p\<close> is
  empty, that is for the pattern \<open>*\<close>, no \<open>/\<close> is put in front: the child pattern is \<open>d/*\<close>.
\<close>

theorem recursive_call_targets:
  assumes "strLocalDir \<noteq> []" and "m_pCurlSession c"
    and "stat_is_dir strLocalDir w"
    and "fst (enumeration c srv strLocalDir (p @ ''*'') w) = CURLE_OK
         \<or> fst (enumeration c srv strLocalDir (p @ ''*'') w) = CURLE_REMOTE_FILE_NOT_FOUND"
    and "vecDirList (fst (snd (enumeration c srv strLocalDir (p @ ''*'') w))) \<noteq> []"
  shows "DownloadWildcard (Suc depth) c srv strLocalDir (p @ ''*'') w =
           for_each_dir (DownloadWildcard depth c srv) (strOutputPath_of w strLocalDir)
             (strBaseUrl_of (p @ ''*''))
             (vecDirList (fst (snd (enumeration c srv strLocalDir (p @ ''*'') w))))
             True (snd (snd (enumeration c srv strLocalDir (p @ ''*'') w)))
         \<and> (\<forall>call d rest bRet w'.
               for_each_dir call (strOutputPath_of w strLocalDir) (strBaseUrl_of (p @ ''*''))
                 (d # rest) bRet w' =
               (case call ((if last strLocalDir = path_sep w then strLocalDir
                            else strLocalDir @ [path_sep w]) @ d)
                          (if p = [] then d @ ''/*'' else spec_child_pattern (p @ ''*'') d) w' of
                  None \<Rightarrow> None
                | Some (ok, w'') \<Rightarrow>
                    for_each_dir call (strOutputPath_of w strLocalDir) (strBaseUrl_of (p @ ''*''))
                      rest (bRet \<and> ok)
                      (if ok then w''
                       else m_oLog (LOG_ERROR_CURL_GETWILD_REC_FORMAT
                                      (strBaseUrl_of (p @ ''*'') @ d @ ''/*'')
                                      (strOutputPath_of w strLocalDir @ d)) w'')))"
proof -
  obtain res data1 w1 where e: "enumeration c srv strLocalDir (p @ ''*'') w = (res, data1, w1)"
    by (cases "enumeration c srv strLocalDir (p @ ''*'') w") auto
  have out: "strOutputPath data1 = strOutputPath_of w strLocalDir"
    using enumeration_strOutputPath [of c srv strLocalDir "p @ ''*''" w] e by simp
  have ne: "p @ ''*'' \<noteq> []" by simp
  have first: "DownloadWildcard (Suc depth) c srv strLocalDir (p @ ''*'') w =
      for_each_dir (DownloadWildcard depth c srv) (strOutputPath data1)
        (strBaseUrl_of (p @ ''*'')) (vecDirList data1) True w1"
    using assms(4,5) e
    by (simp only: DownloadWildcard_enumerated [OF assms(1) ne assms(2,3)]) auto
  have local: "(if last strLocalDir = path_sep w then strLocalDir
                else strLocalDir @ [path_sep w]) = strOutputPath_of w strLocalDir"
    by (simp add: strOutputPath_of_def)
  have remote: "\<And>d. (if p = [] then d @ ''/*'' else spec_child_pattern (p @ ''*'') d) =
      strBaseUrl_of (p @ ''*'') @ d @ ''/*''"
    by (simp add: strBaseUrl_of_wildcard spec_child_pattern_wildcard)
  show ?thesis
    unfolding local remote
    using first e out by (auto split: option.split)
qed

theorem recursive_call_targets_witness:
  "DownloadWildcard (Suc (Suc 0)) example_client example_server ''out'' ''reports/*'' example_world =
     for_each_dir (DownloadWildcard (Suc 0) example_client example_server) ''out/'' ''reports/''
       [''2024''] True
       (snd (snd (enumeration example_client example_server ''out'' ''reports/*'' example_world)))
   \<and> for_each_dir (DownloadWildcard (Suc 0) example_client example_server) ''out/'' ''reports/''
       [''2024''] True
       (snd (snd (enumeration example_client example_server ''out'' ''reports/*'' example_world))) =
     (case DownloadWildcard (Suc 0) example_client example_server ''out/2024'' ''reports/2024/*''
             (snd (snd (enumeration example_client example_server ''out'' ''reports/*''
                          example_world))) of
        None \<Rightarrow> None
      | Some (ok, w'') \<Rightarrow>
          Some (ok, if ok then w''
                    else m_oLog (LOG_ERROR_CURL_GETWILD_REC_FORMAT ''reports/2024/*'' ''out/2024'')
                           w''))"
proof -
  have r: "fst (enumeration example_client example_server ''out'' ''reports/*'' example_world) = CURLE_OK"
    by code_simp
  have v: "vecDirList (fst (snd (enumeration example_client example_server ''out'' ''reports/*''
              example_world))) = [''2024'']"
    by code_simp
  have o: "strOutputPath_of example_world ''out'' = ''out/''"
    by code_simp
  have b: "strBaseUrl_of ''reports/*'' = ''reports/''"
    by code_simp
  have s: "path_sep example_world = CHR ''/''"
    by (simp add: example_world_def)
  have q: "spec_child_pattern ''reports/*'' ''2024'' = ''reports/2024/*''"
    by code_simp
  show ?thesis
    using recursive_call_targets
      [of "''out''" example_client example_world example_server "''reports/''" "Suc 0"]
      example_stat example_session r v o b s q
    by (auto split: option.split)
qed

text \<open>
  Claim C1 as stated fails for the pattern \<open>*\<close>: the download of \<open>*\<close> that finds the
  subdirectory \<open>d\<close> requests the URL of \<open>d/*\<close> next, while the pattern worded in the
  specification is \<open>/d/*\<close>, which has another URL.
\<close>

theorem child_pattern_counterexample:
  "map_option (performed \<circ> snd)
     (DownloadWildcard (Suc (Suc 0)) example_client example_server ''out'' ''*'' example_world) =
     Some [ParseURL example_client ''*'', ParseURL example_client ''d/*'']
   \<and> spec_child_pattern ''*'' ''d'' = ''/d/*''
   \<and> ParseURL example_client ''d/*'' \<noteq> ParseURL example_client (spec_child_pattern ''*'' ''d'')"
  by code_simp

subsection \<open>The callbacks\<close>

lemma FileIsComingCallback_directory:
  assumes "filetype finfo = CURLFILETYPE_DIRECTORY"
  shows "FileIsComingCallback finfo data remains w =
     (case fs_mkdir (strOutputPath data @ filename finfo) w of
        Inl e \<Rightarrow>
          if e \<noteq> EEXIST
          then (CURL_CHUNK_BGN_FUNC_FAIL, data\<lparr>vecDirList := vecDirList data @ [filename finfo]\<rparr>,
                w\<lparr>cerr := cerr w @ [(e, strOutputPath data @ filename finfo)]\<rparr>)
          else (CURL_CHUNK_BGN_FUNC_OK, data\<lparr>vecDirList := vecDirList data @ [filename finfo]\<rparr>, w)
      | Inr w' \<Rightarrow>
          (CURL_CHUNK_BGN_FUNC_OK, data\<lparr>vecDirList := vecDirList data @ [filename finfo]\<rparr>, w'))"
  using assms by (simp add: FileIsComingCallback_def Let_def split: sum.split)

lemma FileIsComingCallback_file:
  assumes "filetype finfo = CURLFILETYPE_FILE"
  shows "FileIsComingCallback finfo data remains w =
     (case ofstream_open (strOutputPath data @ filename finfo) (ofsOutput data) w of
        (s, w') \<Rightarrow>
          if \<not> is_open s
          then (CURL_CHUNK_BGN_FUNC_FAIL, data\<lparr>ofsOutput := s\<rparr>, w')
          else (CURL_CHUNK_BGN_FUNC_OK, data\<lparr>ofsOutput := s\<rparr>, w'))"
  using assms by (simp add: FileIsComingCallback_def)

text \<open>
  Claim C5. For an announced directory, a \<^verbatim>\<open>mkdir\<close> that fails with \<^verbatim>\<open>EEXIST\<close> is
  success: the announcement callback returns \<^verbatim>\<open>CURL_CHUNK_BGN_FUNC_OK\<close> and the
  transfer goes on with the remaining entries. A \<^verbatim>\<open>mkdir\<close> that fails with any other
  error makes the callback return \<^verbatim>\<open>CURL_CHUNK_BGN_FUNC_FAIL\<close>, and the transfer then
  ends with \<^verbatim>\<open>CURLE_CHUNK_FAILED\<close>, which is not \<^verbatim>\<open>CURLE_OK\<close>. An announced file whose
  local file cannot be opened aborts in the same way.
\<close>

theorem announcement_local_failures:
  "(filetype finfo = CURLFILETYPE_DIRECTORY
      \<and> fs_mkdir (strOutputPath data @ filename finfo) w = Inl EEXIST
    \<longrightarrow> FileIsComingCallback finfo data remains w =
          (CURL_CHUNK_BGN_FUNC_OK, data\<lparr>vecDirList := vecDirList data @ [filename finfo]\<rparr>, w)
        \<and> wc_statemach ((finfo, content) # rest) res data w =
          wc_statemach rest res
            (snd (FileIsDownloadedCallback
                    (data\<lparr>vecDirList := vecDirList data @ [filename finfo]\<rparr>))) w)
   \<and> (filetype finfo = CURLFILETYPE_DIRECTORY
      \<and> fs_mkdir (strOutputPath data @ filename finfo) w = Inl e \<and> e \<noteq> EEXIST
    \<longrightarrow> fst (FileIsComingCallback finfo data remains w) = CURL_CHUNK_BGN_FUNC_FAIL
        \<and> fst (wc_statemach ((finfo, content) # rest) res data w) = CURLE_CHUNK_FAILED
        \<and> CURLE_CHUNK_FAILED \<noteq> CURLE_OK)
   \<and> (filetype finfo = CURLFILETYPE_FILE \<and> \<not> is_open (ofsOutput data)
      \<and> fs_open_trunc (strOutputPath data @ filename finfo) w = None
    \<longrightarrow> fst (FileIsComingCallback finfo data remains w) = CURL_CHUNK_BGN_FUNC_FAIL
        \<and> fst (wc_statemach ((finfo, content) # rest) res data w) = CURLE_CHUNK_FAILED
        \<and> CURLE_CHUNK_FAILED \<noteq> CURLE_OK)"
proof (intro conjI impI)
  assume a: "filetype finfo = CURLFILETYPE_DIRECTORY
      \<and> fs_mkdir (strOutputPath data @ filename finfo) w = Inl EEXIST"
  then show ok: "FileIsComingCallback finfo data remains w =
      (CURL_CHUNK_BGN_FUNC_OK, data\<lparr>vecDirList := vecDirList data @ [filename finfo]\<rparr>, w)"
    by (simp add: FileIsComingCallback_directory)
  from a show "wc_statemach ((finfo, content) # rest) res data w =
      wc_statemach rest res
        (snd (FileIsDownloadedCallback
                (data\<lparr>vecDirList := vecDirList data @ [filename finfo]\<rparr>))) w"
    by (simp add: FileIsComingCallback_directory)
next
  assume a: "filetype finfo = CURLFILETYPE_DIRECTORY
      \<and> fs_mkdir (strOutputPath data @ filename finfo) w = Inl e \<and> e \<noteq> EEXIST"
  then show "fst (FileIsComingCallback finfo data remains w) = CURL_CHUNK_BGN_FUNC_FAIL"
    by (simp add: FileIsComingCallback_directory)
  from a show "fst (wc_statemach ((finfo, content) # rest) res data w) = CURLE_CHUNK_FAILED"
    by (simp add: FileIsComingCallback_directory)
  show "CURLE_CHUNK_FAILED \<noteq> CURLE_OK"
    by (simp add: CURLE_CHUNK_FAILED_def CURLE_OK_def)
next
  assume a: "filetype finfo = CURLFILETYPE_FILE \<and> \<not> is_open (ofsOutput data)
      \<and> fs_open_trunc (strOutputPath data @ filename finfo) w = None"
  then have o: "ofstream_open (strOutputPath data @ filename finfo) (ofsOutput data) w =
      ((ofsOutput data)\<lparr>failbit := True\<rparr>, w)"
    by (simp add: ofstream_open_def)
  have n: "\<not> is_open ((ofsOutput data)\<lparr>failbit := True\<rparr>)"
    using a by (simp add: is_open_def)
  show "fst (FileIsComingCallback finfo data remains w) = CURL_CHUNK_BGN_FUNC_FAIL"
    using a o n by (simp add: FileIsComingCallback_file)
  show "fst (wc_statemach ((finfo, content) # rest) res data w) = CURLE_CHUNK_FAILED"
    using a o n by (simp add: FileIsComingCallback_file)
  show "CURLE_CHUNK_FAILED \<noteq> CURLE_OK"
    by (simp add: CURLE_CHUNK_FAILED_def CURLE_OK_def)
qed

theorem announcement_local_failures_witness:
  "fst (FileIsComingCallback \<lparr>filename = ''old'', filetype = CURLFILETYPE_DIRECTORY\<rparr>
          example_data 0 example_world) = CURL_CHUNK_BGN_FUNC_OK
   \<and> fst (wc_statemach [dir_entry ''locked'', dir_entry ''2024''] CURLE_OK example_data example_world)
       = CURLE_CHUNK_FAILED
   \<and> fst (wc_statemach [file_entry ''locked.txt'' [''x'']] CURLE_OK example_data example_world)
       = CURLE_CHUNK_FAILED"
proof -
  have a: "fs_mkdir (strOutputPath example_data @ ''old'') example_world = Inl EEXIST"
    by (simp add: example_data_def example_world_def fs_mkdir_def fs_key_def)
  have b: "fs_mkdir (strOutputPath example_data @ ''locked'') example_world = Inl EACCES"
    by (simp add: example_data_def example_world_def fs_mkdir_def fs_key_def)
  have c: "fs_open_trunc (strOutputPath example_data @ ''locked.txt'') example_world = None"
    by (simp add: example_data_def example_world_def fs_open_trunc_def fs_key_def)
  have d: "\<not> is_open (ofsOutput example_data)"
    by (simp add: example_data_def is_open_def ofstream_init_def)
  show ?thesis
    using a b c d
      announcement_local_failures [of "\<lparr>filename = ''old'', filetype = CURLFILETYPE_DIRECTORY\<rparr>" example_data
               example_world 0 "[]" "[]" CURLE_OK EACCES]
      announcement_local_failures [of "\<lparr>filename = ''locked'', filetype = CURLFILETYPE_DIRECTORY\<rparr>" example_data
               example_world 0 "[]" "[dir_entry ''2024'']" CURLE_OK EACCES]
      announcement_local_failures [of "\<lparr>filename = ''locked.txt'', filetype = CURLFILETYPE_FILE\<rparr>" example_data
               example_world 0 "[''x'']" "[]" CURLE_OK EACCES]
    by (simp add: dir_entry_def file_entry_def)
qed






lemma FileIsDownloadedCallback_closed:
  "\<not> is_open (ofsOutput (snd (FileIsDownloadedCallback data)))"
  by (simp add: FileIsDownloadedCallback_def is_open_def ofstream_close_def split: option.split)

lemma FileIsComingCallback_FAIL_closed:
  assumes "\<not> is_open (ofsOutput data)"
    and "FileIsComingCallback finfo data remains w = (CURL_CHUNK_BGN_FUNC_FAIL, data1, w1)"
  shows "\<not> is_open (ofsOutput data1)"
  using assms
  by (auto simp: FileIsComingCallback_def Let_def
      split: curlfiletype.splits sum.splits prod.splits if_splits)

lemma wc_statemach_closed:
  "\<not> is_open (ofsOutput data) \<Longrightarrow> \<not> is_open (ofsOutput (fst (snd (wc_statemach items res data w))))"
proof (induction items arbitrary: data w)
  case Nil
  then show ?case by simp
next
  case (Cons item items)
  obtain finfo content where item: "item = (finfo, content)" by (cases item)
  obtain r d1 w1 where bgn: "FileIsComingCallback finfo data (length items) w = (r, d1, w1)"
    by (cases "FileIsComingCallback finfo data (length items) w") auto
  obtain acc d2 w2 where del: "deliver wildcard_write content (d1, w1) = (acc, d2, w2)"
    by (cases "deliver wildcard_write content (d1, w1)") auto
  show ?case
  proof (cases r)
    case CURL_CHUNK_BGN_FUNC_FAIL
    then show ?thesis
      using item bgn FileIsComingCallback_FAIL_closed [OF Cons.prems] by simp
  next
    case CURL_CHUNK_BGN_FUNC_SKIP
    then show ?thesis
      using item bgn Cons.IH [OF FileIsDownloadedCallback_closed] by simp
  next
    case CURL_CHUNK_BGN_FUNC_OK
    then show ?thesis
      using item bgn del Cons.IH [OF FileIsDownloadedCallback_closed]
        FileIsDownloadedCallback_closed
      by simp
  qed
qed

text \<open>
  Claim C7. The completion callback leaves the output stream closed: it closes the stream
  when a file is open and changes nothing otherwise. The callback data holds one stream, so
  at most one output file is open at any time, and a transfer that starts with the stream
  closed, as every transfer of \<^verbatim>\<open>DownloadWildcard\<close> does, returns with the stream closed,
  whatever the remote side announces and however the transfer ends.
\<close>

theorem output_file_closed:
  "\<not> is_open (ofsOutput (snd (FileIsDownloadedCallback data)))
   \<and> (\<not> is_open (ofsOutput data) \<longrightarrow> FileIsDownloadedCallback data = (CURL_CHUNK_END_FUNC_OK, data))
   \<and> (\<not> is_open (ofsOutput data) \<longrightarrow>
        \<not> is_open (ofsOutput (fst (snd (wc_statemach items res data w)))))
   \<and> \<not> is_open (ofsOutput (fst (snd (enumeration c srv strLocalDir strRemoteWildcard w0))))"
proof -
  have "\<not> is_open (ofsOutput (fst (snd (enumeration c srv strLocalDir strRemoteWildcard w0))))"
    unfolding enumeration_def Perform_wildcard_def Let_def
    by (rule wc_statemach_closed) (simp add: is_open_def ofstream_init_def)
  then show ?thesis
    using FileIsDownloadedCallback_closed [of data] wc_statemach_closed [of data items res w]
    by (simp add: FileIsDownloadedCallback_def)
qed

theorem output_file_closed_witness:
  "\<not> is_open (ofsOutput example_data)
   \<and> FileIsDownloadedCallback example_data = (CURL_CHUNK_END_FUNC_OK, example_data)
   \<and> \<not> is_open (ofsOutput (fst (snd (wc_statemach
          [file_entry ''top.txt'' [''ab'', ''cd''], file_entry ''locked.txt'' [''x'']]
          CURLE_OK example_data example_world))))
   \<and> nodes (snd (snd (wc_statemach
          [file_entry ''top.txt'' [''ab'', ''cd''], file_entry ''locked.txt'' [''x'']]
          CURLE_OK example_data example_world))) ''out/top.txt'' = Some (Regular ''abcd'')"
proof -
  have c: "\<not> is_open (ofsOutput example_data)"
    by (simp add: example_data_def is_open_def ofstream_init_def)
  have n: "nodes (snd (snd (wc_statemach
          [file_entry ''top.txt'' [''ab'', ''cd''], file_entry ''locked.txt'' [''x'']]
          CURLE_OK example_data example_world))) ''out/top.txt'' = Some (Regular ''abcd'')"
    by code_simp
  show ?thesis
    using output_file_closed [of example_data
        "[file_entry ''top.txt'' [''ab'', ''cd''], file_entry ''locked.txt'' [''x'']]"
        CURLE_OK example_world] c n
    by simp
qed

subsection \<open>Logging\<close>

text \<open>
  The callbacks do not log. With \<^verbatim>\<open>ENABLE_LOG\<close> unset, \<^verbatim>\<open>DownloadFile\<close> logs nothing,
  and all that \<^verbatim>\<open>DownloadWildcard\<close> passes to the logger are the messages for failed
  recursive calls: its other three calls of the logger are behind the flag.
\<close>

lemma logged_FileIsComingCallback:
  "logged (snd (snd (FileIsComingCallback finfo data remains w))) = logged w"
  by (cases "filetype finfo")
     (auto simp: FileIsComingCallback_def Let_def fs_mkdir_def ofstream_open_def fs_open_trunc_def
        split: sum.splits option.splits prod.splits if_splits)

lemma logged_WriteItCallback:
  "logged (snd (snd (WriteItCallback buff sz nmemb data w))) = logged w"
  by (auto simp: WriteItCallback_def ofstream_write_def fs_append_def
      split: option.splits node.splits prod.splits)

lemma logged_deliver:
  "logged (snd (snd (deliver wildcard_write bufs (data, w)))) = logged w"
proof (induction bufs arbitrary: data w)
  case Nil
  show ?case by simp
next
  case (Cons buff bufs)
  obtain taken d' w' where step: "WriteItCallback buff 1 (length buff) data w = (taken, d', w')"
    by (cases "WriteItCallback buff 1 (length buff) data w") auto
  have "logged w' = logged w"
    using logged_WriteItCallback [of buff 1 "length buff" data w] step by simp
  then show ?case
    using step Cons.IH [where data = d' and w = w'] by (simp add: wildcard_write_pair)
qed

lemma logged_wc_statemach:
  "logged (snd (snd (wc_statemach items res data w))) = logged w"
proof (induction items arbitrary: data w)
  case Nil
  show ?case by simp
next
  case (Cons item items)
  obtain finfo content where item: "item = (finfo, content)" by (cases item)
  obtain r d1 w1 where bgn: "FileIsComingCallback finfo data (length items) w = (r, d1, w1)"
    by (cases "FileIsComingCallback finfo data (length items) w") auto
  have l1: "logged w1 = logged w"
    using logged_FileIsComingCallback [of finfo data "length items" w] bgn by simp
  obtain acc d2 w2 where del: "deliver wildcard_write content (d1, w1) = (acc, d2, w2)"
    by (cases "deliver wildcard_write content (d1, w1)") auto
  have l2: "logged w2 = logged w"
    using logged_deliver [of content d1 w1] del l1 by simp
  show ?case
    using item bgn del l1 l2 Cons.IH by (cases r) simp_all
qed

lemma logged_enumeration:
  "logged (snd (snd (enumeration c srv strLocalDir strRemoteWildcard w))) = logged w"
  by (simp add: enumeration_def Perform_wildcard_def Let_def logged_wc_statemach)

lemma only_recursion_messages_append:
  "only_recursion_messages (xs @ ys) \<longleftrightarrow> only_recursion_messages xs \<and> only_recursion_messages ys"
  by (simp add: only_recursion_messages_def)

lemma logged_for_each_dir:
  assumes "\<And>l r w b w'. call l r w = Some (b, w')
             \<Longrightarrow> \<exists>ms. logged w' = logged w @ ms \<and> only_recursion_messages ms"
    and "for_each_dir call out base ds bRet w = Some (b, w')"
  shows "\<exists>ms. logged w' = logged w @ ms \<and> only_recursion_messages ms"
  using assms(2)
proof (induction ds arbitrary: bRet w)
  case Nil
  then show ?case by (simp add: only_recursion_messages_def)
next
  case (Cons d ds)
  then obtain ok w1 where c: "call (out @ d) (base @ d @ ''/*'') w = Some (ok, w1)"
    by (auto split: option.splits)
  obtain ms1 where m1: "logged w1 = logged w @ ms1" "only_recursion_messages ms1"
    using assms(1) [OF c] by blast
  let ?m = "LOG_ERROR_CURL_GETWILD_REC_FORMAT (base @ d @ ''/*'') (out @ d)"
  show ?case
  proof (cases ok)
    case True
    then have "for_each_dir call out base ds bRet w1 = Some (b, w')"
      using Cons.prems c by simp
    then obtain ms2 where "logged w' = logged w1 @ ms2" "only_recursion_messages ms2"
      using Cons.IH by blast
    then have "logged w' = logged w @ (ms1 @ ms2) \<and> only_recursion_messages (ms1 @ ms2)"
      using m1 by (simp add: only_recursion_messages_append)
    then show ?thesis by blast
  next
    case False
    then have "for_each_dir call out base ds False (m_oLog ?m w1) = Some (b, w')"
      using Cons.prems c by simp
    then obtain ms2 where "logged w' = logged (m_oLog ?m w1) @ ms2" "only_recursion_messages ms2"
      using Cons.IH by blast
    then have "logged w' = logged w @ (ms1 @ ?m # ms2)
        \<and> only_recursion_messages (ms1 @ ?m # ms2)"
      using m1 by (simp add: only_recursion_messages_append) (simp add: only_recursion_messages_def)
    then show ?thesis by blast
  qed
qed

lemma logging_disabled_DownloadWildcard:
  assumes "ENABLE_LOG \<notin> m_eSettingsFlags c"
  shows "DownloadWildcard depth c srv strLocalDir strRemoteWildcard w = Some (b, w')
    \<Longrightarrow> \<exists>ms. logged w' = logged w @ ms \<and> only_recursion_messages ms"
proof (induction depth arbitrary: strLocalDir strRemoteWildcard w b w')
  case 0
  then show ?case by simp
next
  case (Suc depth)
  have nil: "only_recursion_messages []"
    by (simp add: only_recursion_messages_def)
  show ?case
  proof (cases "strLocalDir \<noteq> [] \<and> strRemoteWildcard \<noteq> [] \<and> m_pCurlSession c
                \<and> stat_is_dir strLocalDir w")
    case False
    then have "w' = w"
      using Suc.prems assms
      by (auto simp: stat_is_dir_strOutputPath Let_def split: if_splits)
    then show ?thesis using nil by simp
  next
    case True
    obtain res data1 w1 where e: "enumeration c srv strLocalDir strRemoteWildcard w = (res, data1, w1)"
      by (cases "enumeration c srv strLocalDir strRemoteWildcard w") auto
    have l1: "logged w1 = logged w"
      using logged_enumeration [of c srv strLocalDir strRemoteWildcard w] e by simp
    have unf: "DownloadWildcard (Suc depth) c srv strLocalDir strRemoteWildcard w =
       (if res \<noteq> CURLE_OK \<and> res \<noteq> CURLE_REMOTE_FILE_NOT_FOUND
        then Some (False,
                   if ENABLE_LOG \<in> m_eSettingsFlags c
                   then m_oLog (LOG_ERROR_CURL_GETWILD_FORMAT
                                  (m_strServer c) strRemoteWildcard res) w1
                   else w1)
        else if vecDirList data1 \<noteq> [] \<and> last strRemoteWildcard = CHR ''*''
        then for_each_dir (DownloadWildcard depth c srv) (strOutputPath data1)
               (strBaseUrl_of strRemoteWildcard) (vecDirList data1) True w1
        else Some (True, w1))"
      using True e by (intro DownloadWildcard_cases) simp_all
    show ?thesis
    proof (cases "\<not> (res \<noteq> CURLE_OK \<and> res \<noteq> CURLE_REMOTE_FILE_NOT_FOUND)
                  \<and> vecDirList data1 \<noteq> [] \<and> last strRemoteWildcard = CHR ''*''")
      case True
      then have "for_each_dir (DownloadWildcard depth c srv) (strOutputPath data1)
               (strBaseUrl_of strRemoteWildcard) (vecDirList data1) True w1 = Some (b, w')"
        using Suc.prems unf by (auto simp del: DownloadWildcard.simps)
      then have "\<exists>ms. logged w' = logged w1 @ ms \<and> only_recursion_messages ms"
        using logged_for_each_dir [of "DownloadWildcard depth c srv"] Suc.IH by blast
      then show ?thesis using l1 by simp
    next
      case False
      then have "w' = w1"
        using Suc.prems unf assms by (auto simp del: DownloadWildcard.simps split: if_splits)
      then show ?thesis using l1 nil by simp
    qed
  qed
qed

lemma logging_disabled_DownloadFile:
  assumes "ENABLE_LOG \<notin> m_eSettingsFlags c"
  shows "logged (snd (DownloadFile c srv strLocalFile strRemoteFile w)) = logged w"
proof -
  have wr: "logged (snd (snd (file_write buff sz nmemb s))) = logged (snd s)" for buff sz nmemb s
    by (cases s)
       (auto simp: file_write_def WriteToFileCallback_def ofstream_write_def fs_append_def
          split: option.splits node.splits prod.splits if_splits)
  have del: "logged (snd (snd (deliver file_write bufs s))) = logged (snd s)" for bufs s
  proof (induction bufs arbitrary: s)
    case Nil
    show ?case by simp
  next
    case (Cons buff bufs)
    obtain taken s' where step: "file_write buff 1 (length buff) s = (taken, s')"
      by (cases "file_write buff 1 (length buff) s") auto
    have "logged (snd s') = logged (snd s)"
      using wr [of buff 1 "length buff" s] step by simp
    then show ?case using step Cons.IH [of s'] by simp
  qed
  have pd: "logged (snd (snd (Perform_download srv url ofs w0))) = logged w0" for url ofs w0
  proof -
    obtain acc ofs' w0' where d: "deliver file_write (body (srv (length (performed w0)) url))
        (ofs, w0\<lparr>performed := performed w0 @ [url]\<rparr>) = (acc, ofs', w0')"
      by (cases "deliver file_write (body (srv (length (performed w0)) url))
        (ofs, w0\<lparr>performed := performed w0 @ [url]\<rparr>)") auto
    have "logged w0' = logged w0"
      using del [of "body (srv (length (performed w0)) url)"
          "(ofs, w0\<lparr>performed := performed w0 @ [url]\<rparr>)"] d
      by simp
    then show ?thesis using d by (simp add: Perform_download_def Let_def)
  qed
  have op: "logged (snd (ofstream_open p s w0)) = logged w0" for p s w0
    by (auto simp: ofstream_open_def fs_open_trunc_def Let_def split: option.splits if_splits)
  have rm: "logged (fs_remove p w0) = logged w0" for p w0
    by (auto simp: fs_remove_def Let_def split: option.splits node.splits)
  obtain s0 w0 where o: "ofstream_open strLocalFile ofstream_init w = (s0, w0)"
    by (cases "ofstream_open strLocalFile ofstream_init w") auto
  obtain res s1 w1 where t: "Perform_download srv (ParseURL c strRemoteFile) s0 w0 = (res, s1, w1)"
    by (cases "Perform_download srv (ParseURL c strRemoteFile) s0 w0") auto
  have "logged w0 = logged w" using op [of strLocalFile ofstream_init w] o by simp
  moreover have "logged w1 = logged w0"
    using pd [of "ParseURL c strRemoteFile" s0 w0] t by simp
  ultimately show ?thesis
    using assms o t rm by (simp add: DownloadFile_def DownloadFile_locals_def Let_def)
qed

text \<open>
  Claim C9, at an input where it fails. The client's \<^verbatim>\<open>ENABLE_LOG\<close> flag is not set and
  nothing has been logged; the download of \<open>mixed/*\<close> finds three subdirectories, the
  recursive call for the second one fails, and the logger is called with the message for a
  failed recursive call.
\<close>

theorem recursion_log_without_flag:
  "ENABLE_LOG \<notin> m_eSettingsFlags example_client
   \<and> logged example_world = []
   \<and> map_option (logged \<circ> snd)
       (DownloadWildcard (Suc (Suc 0)) example_client example_server ''out'' ''mixed/*''
          example_world) =
     Some [LOG_ERROR_CURL_GETWILD_REC_FORMAT ''mixed/b/*'' ''out/b'']"
  by code_simp

subsection \<open>DownloadFile\<close>










subsection \<open>The depth bound\<close>

text \<open>A call that returns within a depth bound returns the same within every larger one.\<close>

lemma for_each_dir_more:
  assumes "\<And>l r w res. call l r w = Some res \<Longrightarrow> call' l r w = Some res"
  shows "for_each_dir call out base ds bRet w = Some res
    \<Longrightarrow> for_each_dir call' out base ds bRet w = Some res"
proof (induction ds arbitrary: bRet w)
  case Nil
  then show ?case by simp
next
  case (Cons d ds)
  then obtain ok w1 where c: "call (out @ d) (base @ d @ ''/*'') w = Some (ok, w1)"
    by (auto split: option.splits)
  then have c': "call' (out @ d) (base @ d @ ''/*'') w = Some (ok, w1)"
    by (rule assms)
  show ?case
    using Cons.prems c c' Cons.IH by (cases ok) simp_all
qed

lemma DownloadWildcard_Suc:
  "DownloadWildcard depth c srv strLocalDir strRemoteWildcard w = Some res
    \<Longrightarrow> DownloadWildcard (Suc depth) c srv strLocalDir strRemoteWildcard w = Some res"
proof (induction depth arbitrary: strLocalDir strRemoteWildcard w res)
  case 0
  then show ?case by simp
next
  case (Suc depth)
  have step: "for_each_dir (DownloadWildcard depth c srv) out base ds bRet w0 = Some r
      \<Longrightarrow> for_each_dir (DownloadWildcard (Suc depth) c srv) out base ds bRet w0 = Some r"
    for out base ds bRet w0 r
    by (rule for_each_dir_more [where call = "DownloadWildcard depth c srv"]) (rule Suc.IH)
  show ?case
    using Suc.prems
    by (subst DownloadWildcard.simps(2), subst (asm) DownloadWildcard.simps(2))
       (auto simp: Let_def split: if_splits prod.splits intro: step)
qed

lemma DownloadWildcard_deeper:
  "DownloadWildcard depth c srv strLocalDir strRemoteWildcard w = Some res
    \<Longrightarrow> DownloadWildcard (depth + more_depth) c srv strLocalDir strRemoteWildcard w = Some res"
  by (induction more_depth) (simp_all add: DownloadWildcard_Suc del: DownloadWildcard.simps)

subsection \<open>Downloading twice\<close>












































lemma announced_m_oLog: "announced (m_oLog m w) out ds = announced w out ds"
  by (simp add: announced_def fs_key_def)








end
